theory Spec2Isabelle
  imports Main
begin

section \<open>Python strings\<close>

text \<open>
  A Python \<open>str\<close> is a sequence of code points. A \<^typ>\<open>char\<close> stands here for one code
  point below 256 (Latin-1), so a \<^typ>\<open>string\<close> is a \<open>str\<close> over that range and
  \<open>length\<close> counts code points. Within the range, \<open>str.isspace\<close> holds for the code
  points 9 to 13, 28 to 32, 133 and 160, and \<open>str.lower\<close> moves \<open>A\<close> to \<open>Z\<close> and the
  capital letters 192 to 222 (without the multiplication sign 215) up by 32.
\<close>

definition isspace :: "char \<Rightarrow> bool" where
  "isspace c =
     (let n = (of_char c :: nat)
      in (9 \<le> n \<and> n \<le> 13) \<or> (28 \<le> n \<and> n \<le> 32) \<or> n = 133 \<or> n = 160)"

definition lower_char :: "char \<Rightarrow> char" where
  "lower_char c =
     (let n = (of_char c :: nat)
      in if (65 \<le> n \<and> n \<le> 90) \<or> (192 \<le> n \<and> n \<le> 222 \<and> n \<noteq> 215)
         then char_of (n + 32) else c)"

definition lower :: "string \<Rightarrow> string" where
  "lower s = map lower_char s"

definition lstrip :: "string \<Rightarrow> string" where
  "lstrip s = dropWhile isspace s"

definition rstrip :: "string \<Rightarrow> string" where
  "rstrip s = rev (dropWhile isspace (rev s))"

definition strip :: "string \<Rightarrow> string" where
  "strip s = rstrip (lstrip s)"

fun startswith :: "string \<Rightarrow> string \<Rightarrow> bool" where
  "startswith s [] = True"
| "startswith [] (p # ps) = False"
| "startswith (c # cs) (p # ps) = (c = p \<and> startswith cs ps)"

text \<open>\<open>d.get(k, default)\<close>, where the default may be \<open>None\<close>.\<close>

definition dict_get :: "('k \<rightharpoonup> 'v) \<Rightarrow> 'k \<Rightarrow> 'v option \<Rightarrow> 'v option" where
  "dict_get d k dflt = (case d k of Some v \<Rightarrow> Some v | None \<Rightarrow> dflt)"


section \<open>The version normalizer\<close>

definition TOX_SETUPTOOLS_VERSION_VAR :: string where
  "TOX_SETUPTOOLS_VERSION_VAR = ''TOX_SETUPTOOLS_VERSION''"

definition get_setuptools_package_version :: "string \<Rightarrow> string" where
  "get_setuptools_package_version setuptools_version =
     (let setuptools_version = strip (lower setuptools_version)
      in if startswith setuptools_version ''setuptools'' then setuptools_version
         else ''setuptools=='' @ setuptools_version)"


section \<open>The host objects and the process state\<close>

text \<open>
  The host's objects are taken as far as the hooks read them. A section reader answers
  \<open>getstring\<close> with a \<open>str\<close> or \<open>None\<close>; \<open>config.envconfigs\<close> is a dictionary, read in
  its order as the list of its items. An action carries \<open>venvname\<close> (tox before 3.8) or
  \<open>name\<close>; a missing attribute is \<open>None\<close>. A virtualenv answers \<open>_get_os_environ()\<close>
  with a dictionary, and its \<open>_install\<close> either returns or raises an exception of the
  host, of type \<open>'x\<close>.
\<close>

record envconfig =
  getstring :: "string \<Rightarrow> string option"

record config =
  envconfigs :: "(string \<times> envconfig) list"

record action =
  venvname :: "string option"
  name :: "string option"

record 'x venv =
  get_os_environ :: "string \<rightharpoonup> string"
  install :: "string list \<Rightarrow> string list \<Rightarrow> action \<Rightarrow> 'x option"

text \<open>
  The state the hooks work on: the module's dictionary, the environment of the process
  that \<open>getenv\<close> reads, the lines printed, and the installations requested from the
  host (packages, extra options, action), in order.
\<close>

record world =
  PER_ENV_SETUPTOOLS_VERSIONS :: "string \<rightharpoonup> string"
  os_environ :: "string \<rightharpoonup> string"
  stdout :: "string list"
  installs :: "(string list \<times> string list \<times> action) list"

datatype 'x error = AttributeError | InstallError 'x

definition getenv :: "world \<Rightarrow> string \<Rightarrow> string option" where
  "getenv w key = os_environ w key"


section \<open>The configuration hook\<close>

text \<open>
  The body of the loop of \<open>tox_configure\<close>, for one environment and what its reader
  gave. \<open>if setuptools_version:\<close> is false for \<open>None\<close> and for the empty string.
\<close>

definition record_version ::
  "(string \<rightharpoonup> string) \<Rightarrow> string \<Rightarrow> string option \<Rightarrow> (string \<rightharpoonup> string)" where
  "record_version reg env setuptools_version =
     (case setuptools_version of
        None \<Rightarrow> reg
      | Some v \<Rightarrow> if v \<noteq> [] then reg(env \<mapsto> v) else reg)"

fun configure_loop ::
  "(string \<times> envconfig) list \<Rightarrow> (string \<rightharpoonup> string) \<Rightarrow> (string \<rightharpoonup> string)" where
  "configure_loop [] reg = reg"
| "configure_loop ((env, ec) # items) reg =
     configure_loop items (record_version reg env (getstring ec ''setuptools_version''))"

definition tox_configure :: "config \<Rightarrow> world \<Rightarrow> world" where
  "tox_configure cfg w =
     w\<lparr>PER_ENV_SETUPTOOLS_VERSIONS :=
         configure_loop (envconfigs cfg) (PER_ENV_SETUPTOOLS_VERSIONS w)\<rparr>"


section \<open>The installation hook\<close>

text \<open>The value read from the environment: the virtualenv's own variables, then the process.\<close>

definition tox_setuptools_version_from_env :: "'x venv \<Rightarrow> world \<Rightarrow> string option" where
  "tox_setuptools_version_from_env v w =
     dict_get (get_os_environ v) TOX_SETUPTOOLS_VERSION_VAR (getenv w TOX_SETUPTOOLS_VERSION_VAR)"

text \<open>\<open>action.venvname\<close>, and \<open>action.name\<close> when that attribute is missing.\<close>

definition action_venvname :: "action \<Rightarrow> string option" where
  "action_venvname a = (case venvname a of Some n \<Rightarrow> Some n | None \<Rightarrow> name a)"

text \<open>The lookup of the hook: the dictionary's entry, else the value from the environment.\<close>

definition resolve :: "(string \<rightharpoonup> string) \<Rightarrow> string \<Rightarrow> string option \<Rightarrow> string option" where
  "resolve reg env fallback = dict_get reg env fallback"

text \<open>
  The end of the hook, from \<open>if setuptools_version:\<close> on; the test is false for
  \<open>None\<close> and for the empty string.
\<close>

definition install_setuptools ::
  "'x venv \<Rightarrow> action \<Rightarrow> string \<Rightarrow> string option \<Rightarrow> world \<Rightarrow> 'x error option \<times> world" where
  "install_setuptools v a vname setuptools_version w =
     (case setuptools_version of
        None \<Rightarrow> (None, w)
      | Some sv \<Rightarrow>
          if sv \<noteq> [] then
            (let package = get_setuptools_package_version sv;
                 w1 = w\<lparr>stdout := stdout w @ [vname @ '' setuptools_version is '' @ package]\<rparr>;
                 w2 = w1\<lparr>installs := installs w1 @ [([package], [''--upgrade''], a)]\<rparr>
             in (map_option InstallError (install v [package] [''--upgrade''] a), w2))
          else (None, w))"

text \<open>
  The hook returns the exception it ends with, if any, and the state it leaves. The
  host's installer acts on the host only: it does not reach the module's dictionary.
\<close>

definition tox_testenv_install_deps ::
  "'x venv \<Rightarrow> action \<Rightarrow> world \<Rightarrow> 'x error option \<times> world" where
  "tox_testenv_install_deps v a w =
     (let from_env = tox_setuptools_version_from_env v w
      in case action_venvname a of
           None \<Rightarrow> (Some AttributeError, w)
         | Some vname \<Rightarrow>
             install_setuptools v a vname
               (resolve (PER_ENV_SETUPTOOLS_VERSIONS w) vname from_env) w)"


section \<open>Sample runs\<close>

text \<open>
  A configuration of four environments: two declare a version, one declares the empty
  string, one declares nothing. The state of a fresh process follows, with and without
  the variable set, and then virtualenvs and actions of the host.
\<close>

definition reader_of :: "string option \<Rightarrow> envconfig" where
  "reader_of r = \<lparr>getstring = (\<lambda>k. if k = ''setuptools_version'' then r else None)\<rparr>"

definition sample_config :: config where
  "sample_config =
     \<lparr>envconfigs =
        [(''py36'', reader_of (Some ''19.0'')),
         (''py37'', reader_of None),
         (''py38'', reader_of (Some ''SetupTools>=18'')),
         (''py39'', reader_of (Some []))]\<rparr>"

definition fresh_world :: world where
  "fresh_world =
     \<lparr>PER_ENV_SETUPTOOLS_VERSIONS = Map.empty, os_environ = Map.empty,
      stdout = [], installs = []\<rparr>"

definition world_with_var :: world where
  "world_with_var = fresh_world\<lparr>os_environ := [''TOX_SETUPTOOLS_VERSION'' \<mapsto> ''58.0.0'']\<rparr>"

definition venv_of :: "(string \<rightharpoonup> string) \<Rightarrow> unit venv" where
  "venv_of e = \<lparr>get_os_environ = e, install = (\<lambda>pkgs opts a. None)\<rparr>"

definition action_of :: "string \<Rightarrow> action" where
  "action_of n = \<lparr>venvname = None, name = Some n\<rparr>"


section \<open>Facts about the string operations\<close>

lemma isspace_lower_char: "isspace (lower_char c) = isspace c"
  by (auto simp: isspace_def lower_char_def Let_def)

lemma lower_char_idem: "lower_char (lower_char c) = lower_char c"
  by (auto simp: lower_char_def Let_def)

lemma lower_idem: "lower (lower s) = lower s"
  by (simp add: lower_def lower_char_idem)

lemma lower_append: "lower (s @ t) = lower s @ lower t"
  by (simp add: lower_def)

lemma dropWhile_isspace_lower:
  "dropWhile isspace (map lower_char s) = map lower_char (dropWhile isspace s)"
  by (induction s) (simp_all add: isspace_lower_char)

lemma lstrip_lower: "lstrip (lower s) = lower (lstrip s)"
  by (simp add: lstrip_def lower_def dropWhile_isspace_lower)

lemma rstrip_lower: "rstrip (lower s) = lower (rstrip s)"
  by (simp add: rstrip_def lower_def rev_map dropWhile_isspace_lower)

lemma strip_lower: "strip (lower s) = lower (strip s)"
  by (simp add: strip_def lstrip_lower rstrip_lower)

lemma startswith_iff: "startswith s p = (\<exists>t. s = p @ t)"
  by (induction s p rule: startswith.induct) auto

lemma lstrip_noop: "s = [] \<or> \<not> isspace (hd s) \<Longrightarrow> lstrip s = s"
  by (cases s) (auto simp: lstrip_def)

lemma rstrip_noop: "s = [] \<or> \<not> isspace (last s) \<Longrightarrow> rstrip s = s"
proof (cases "s = []")
  case True
  then show ?thesis by (simp add: rstrip_def)
next
  case False
  assume "s = [] \<or> \<not> isspace (last s)"
  with False have "\<not> isspace (hd (rev s))" by (simp add: hd_rev)
  moreover from False have "rev s \<noteq> []" by simp
  ultimately have "dropWhile isspace (rev s) = rev s"
    by (cases "rev s") auto
  then show ?thesis by (simp add: rstrip_def)
qed

lemma rstrip_last: "rstrip s \<noteq> [] \<Longrightarrow> \<not> isspace (last (rstrip s))"
  using hd_dropWhile [of isspace "rev s"] by (simp add: rstrip_def last_rev)

lemma lstrip_hd: "lstrip s \<noteq> [] \<Longrightarrow> \<not> isspace (hd (lstrip s))"
  using hd_dropWhile [of isspace s] by (simp add: lstrip_def)

lemma strip_last: "strip s \<noteq> [] \<Longrightarrow> \<not> isspace (last (strip s))"
  unfolding strip_def by (rule rstrip_last)

lemma rstrip_hd:
  assumes "s = [] \<or> \<not> isspace (hd s)" and "rstrip s \<noteq> []"
  shows "\<not> isspace (hd (rstrip s))"
proof -
  from assms(2) have ne: "s \<noteq> []" by (auto simp: rstrip_def)
  with assms(1) have h: "\<not> isspace (hd s)" by simp
  have "takeWhile isspace (rev s) @ dropWhile isspace (rev s) = rev s" by simp
  then have "rev (dropWhile isspace (rev s)) @ rev (takeWhile isspace (rev s)) = s"
    by (metis rev_append rev_rev_ident)
  then have "rstrip s @ rev (takeWhile isspace (rev s)) = s" by (simp add: rstrip_def)
  with assms(2) have "hd s = hd (rstrip s)" by (metis hd_append2)
  with h show ?thesis by simp
qed

lemma strip_hd: "strip s \<noteq> [] \<Longrightarrow> \<not> isspace (hd (strip s))"
proof -
  assume ne: "strip s \<noteq> []"
  have "lstrip s = [] \<or> \<not> isspace (hd (lstrip s))" using lstrip_hd by blast
  then show ?thesis using ne rstrip_hd [of "lstrip s"] by (simp add: strip_def)
qed

lemma strip_fixed:
  assumes "s = [] \<or> (\<not> isspace (hd s) \<and> \<not> isspace (last s))"
  shows "strip s = s"
proof -
  from assms have "lstrip s = s" by (auto intro: lstrip_noop)
  moreover from assms have "rstrip s = s" by (auto intro: rstrip_noop)
  ultimately show ?thesis by (simp add: strip_def)
qed

lemma strip_idem: "strip (strip s) = strip s"
  using strip_hd [of s] strip_last [of s] by (auto intro: strip_fixed)

lemma lower_prefix_literal: "lower ''setuptools=='' = ''setuptools==''"
  by code_simp

lemma strip_prefixed:
  assumes "s = [] \<or> \<not> isspace (last s)"
  shows "strip (''setuptools=='' @ s) = ''setuptools=='' @ s"
proof (rule strip_fixed, rule disjI2, rule conjI)
  show "\<not> isspace (hd (''setuptools=='' @ s))" by code_simp
next
  have eq: "\<not> isspace CHR ''=''" by code_simp
  show "\<not> isspace (last (''setuptools=='' @ s))"
  proof (cases "s = []")
    case True
    with eq show ?thesis by simp
  next
    case False
    with assms show ?thesis by simp
  qed
qed

lemma startswith_prefixed: "startswith (''setuptools=='' @ s) ''setuptools''"
  by (simp add: startswith_iff)


section \<open>The normalizer's results\<close>

text \<open>
  C2. For every string \<open>v\<close> whose stripped, lowercased form does not start with
  \<open>setuptools\<close>, \<open>get_setuptools_package_version v\<close> is \<open>setuptools==\<close> followed by
  that form; the empty string gives \<open>setuptools==\<close>.
\<close>

theorem bare_version_gets_prefix:
  "\<not> startswith (lower (strip v)) ''setuptools'' \<Longrightarrow>
     get_setuptools_package_version v = ''setuptools=='' @ lower (strip v)"
  by (simp add: get_setuptools_package_version_def strip_lower)

theorem bare_version_gets_prefix_witness:
  "\<not> startswith (lower (strip '' 19.0RC1 '')) ''setuptools'' \<and>
   get_setuptools_package_version '' 19.0RC1 '' = ''setuptools==19.0rc1'' \<and>
   \<not> startswith (lower (strip [])) ''setuptools'' \<and>
   get_setuptools_package_version [] = ''setuptools==''"
proof -
  have h1: "\<not> startswith (lower (strip '' 19.0RC1 '')) ''setuptools''" by code_simp
  have h2: "\<not> startswith (lower (strip [])) ''setuptools''" by code_simp
  have e1: "''setuptools=='' @ lower (strip '' 19.0RC1 '') = ''setuptools==19.0rc1''"
    by code_simp
  have e2: "''setuptools=='' @ lower (strip []) = ''setuptools==''" by code_simp
  from bare_version_gets_prefix [OF h1] bare_version_gets_prefix [OF h2] h1 h2 e1 e2
  show ?thesis by simp
qed

text \<open>
  C3. For every string \<open>v\<close> whose stripped, lowercased form starts with \<open>setuptools\<close>,
  \<open>get_setuptools_package_version v\<close> is that form, with nothing else changed.
\<close>

theorem full_requirement_passes_through:
  "startswith (lower (strip v)) ''setuptools'' \<Longrightarrow>
     get_setuptools_package_version v = lower (strip v)"
  by (simp add: get_setuptools_package_version_def strip_lower)

theorem full_requirement_passes_through_witness:
  "startswith (lower (strip ''  SetupTools>=18 '')) ''setuptools'' \<and>
   get_setuptools_package_version ''  SetupTools>=18 '' = ''setuptools>=18''"
proof -
  have h: "startswith (lower (strip ''  SetupTools>=18 '')) ''setuptools''" by code_simp
  have e: "lower (strip ''  SetupTools>=18 '') = ''setuptools>=18''" by code_simp
  from full_requirement_passes_through [OF h] h e show ?thesis by simp
qed

text \<open>
  C8. \<open>get_setuptools_package_version\<close> is idempotent: applied to its own result, it
  returns that result.
\<close>

theorem get_setuptools_package_version_idem:
  "get_setuptools_package_version (get_setuptools_package_version x) =
     get_setuptools_package_version x"
proof -
  define s where "s = strip (lower x)"
  have low: "lower s = s" by (simp add: s_def strip_lower lower_idem)
  have str: "strip s = s" by (simp add: s_def strip_idem)
  have last: "s = [] \<or> \<not> isspace (last s)" using strip_last [of "lower x"] by (auto simp: s_def)
  show ?thesis
  proof (cases "startswith s ''setuptools''")
    case True
    then have "get_setuptools_package_version x = s"
      by (simp add: get_setuptools_package_version_def s_def)
    moreover from True have "get_setuptools_package_version s = s"
      by (simp add: get_setuptools_package_version_def low str)
    ultimately show ?thesis by simp
  next
    case False
    then have out: "get_setuptools_package_version x = ''setuptools=='' @ s"
      by (simp add: get_setuptools_package_version_def s_def)
    have "lower (''setuptools=='' @ s) = ''setuptools=='' @ s"
      using lower_append [of "''setuptools==''" s] by (simp only: lower_prefix_literal low)
    then have "strip (lower (''setuptools=='' @ s)) = ''setuptools=='' @ s"
      using strip_prefixed [OF last] by simp
    then have "get_setuptools_package_version (''setuptools=='' @ s) = ''setuptools=='' @ s"
      using startswith_prefixed [of s]
      by (simp only: get_setuptools_package_version_def Let_def if_True)
    with out show ?thesis by simp
  qed
qed


section \<open>The dictionary after configuration\<close>

lemma dom_record_version:
  "dom (record_version reg env sv) =
     dom reg \<union> (case sv of None \<Rightarrow> {} | Some v \<Rightarrow> if v \<noteq> [] then {env} else {})"
  by (auto simp: record_version_def split: option.splits if_splits)

lemma record_version_other: "e \<noteq> env \<Longrightarrow> record_version reg env sv e = reg e"
  by (simp add: record_version_def split: option.splits)

lemma record_version_stored:
  "x \<noteq> [] \<Longrightarrow> record_version reg env (Some x) env = Some x"
  by (simp add: record_version_def)

lemma configure_loop_other:
  "e \<notin> fst ` set items \<Longrightarrow> configure_loop items reg e = reg e"
proof (induction items arbitrary: reg)
  case Nil
  then show ?case by simp
next
  case (Cons item items)
  obtain env ec where item: "item = (env, ec)" by (cases item)
  with Cons.prems have "e \<noteq> env" and "e \<notin> fst ` set items" by auto
  with Cons.IH item show ?case by (simp add: record_version_other)
qed

lemma configure_loop_stored:
  assumes "distinct (map fst items)" and "(env, ec) \<in> set items"
    and "getstring ec ''setuptools_version'' = Some x" and "x \<noteq> []"
  shows "configure_loop items reg env = Some x"
  using assms
proof (induction items arbitrary: reg)
  case Nil
  then show ?case by simp
next
  case (Cons item items)
  obtain env' ec' where item: "item = (env', ec')" by (cases item)
  show ?case
  proof (cases "(env, ec) = item")
    case True
    with item Cons.prems have "env \<notin> fst ` set items" by auto
    then have "configure_loop items (record_version reg env (Some x)) env =
        record_version reg env (Some x) env"
      by (rule configure_loop_other)
    with True item Cons.prems show ?thesis by (simp add: record_version_stored)
  next
    case False
    with Cons.prems have "(env, ec) \<in> set items" and "distinct (map fst items)" by auto
    with Cons.IH Cons.prems item show ?thesis by simp
  qed
qed

lemma dom_configure_loop:
  "dom (configure_loop items reg) =
     dom reg \<union> {env. \<exists>ec x. (env, ec) \<in> set items \<and>
                       getstring ec ''setuptools_version'' = Some x \<and> x \<noteq> []}"
proof (induction items arbitrary: reg)
  case Nil
  then show ?case by simp
next
  case (Cons item items)
  obtain env ec where item: "item = (env, ec)" by (cases item)
  show ?case
    unfolding item configure_loop.simps Cons.IH dom_record_version
    by (auto split: option.splits if_splits)
qed

lemma resolve_entry: "reg env = Some x \<Longrightarrow> resolve reg env f = Some x"
  by (simp add: resolve_def dict_get_def)

lemma resolve_no_entry: "reg env = None \<Longrightarrow> resolve reg env f = f"
  by (simp add: resolve_def dict_get_def)


lemma sample_distinct: "distinct (map fst (envconfigs sample_config))"
  by (simp add: sample_config_def)

lemma sample_registry:
  "PER_ENV_SETUPTOOLS_VERSIONS (tox_configure sample_config fresh_world) =
     [''py36'' \<mapsto> ''19.0'', ''py38'' \<mapsto> ''SetupTools>=18'']"
  by (simp add: tox_configure_def sample_config_def fresh_world_def reader_of_def
      record_version_def)

text \<open>
  C1. Once the configuration hook has stored a non-empty string \<open>x\<close> for an environment,
  the dictionary holds \<open>x\<close> for it and the lookup of the installation hook returns \<open>x\<close>,
  whatever the fallback \<open>f\<close> is.
\<close>

theorem registry_value_wins:
  assumes "distinct (map fst (envconfigs cfg))"
    and "(env, ec) \<in> set (envconfigs cfg)"
    and "getstring ec ''setuptools_version'' = Some x"
    and "x \<noteq> []"
  shows "PER_ENV_SETUPTOOLS_VERSIONS (tox_configure cfg w) env = Some x \<and>
         resolve (PER_ENV_SETUPTOOLS_VERSIONS (tox_configure cfg w)) env f = Some x"
proof -
  have "PER_ENV_SETUPTOOLS_VERSIONS (tox_configure cfg w) env = Some x"
    using configure_loop_stored [OF assms] by (simp add: tox_configure_def)
  then show ?thesis by (simp add: resolve_entry)
qed

theorem registry_value_wins_witness:
  "distinct (map fst (envconfigs sample_config)) \<and>
   (''py36'', reader_of (Some ''19.0'')) \<in> set (envconfigs sample_config) \<and>
   getstring (reader_of (Some ''19.0'')) ''setuptools_version'' = Some ''19.0'' \<and>
   ''19.0'' \<noteq> [] \<and>
   resolve (PER_ENV_SETUPTOOLS_VERSIONS (tox_configure sample_config fresh_world))
     ''py36'' (Some ''20.0'') = Some ''19.0''"
proof -
  have h2: "(''py36'', reader_of (Some ''19.0'')) \<in> set (envconfigs sample_config)"
    by (simp add: sample_config_def)
  have h3: "getstring (reader_of (Some ''19.0'')) ''setuptools_version'' = Some ''19.0''"
    by (simp add: reader_of_def)
  have h4: "''19.0'' \<noteq> []" by simp
  from registry_value_wins [OF sample_distinct h2 h3 h4, of fresh_world "Some ''20.0''"]
    sample_distinct h2 h3 h4
  show ?thesis by simp
qed

text \<open>
  C4. Starting from the empty dictionary, after the configuration hook has gone through
  any list of environments, the dictionary has an entry for an environment exactly when
  the loop met that name with a present, non-empty string; a step with an absent or an
  empty value leaves the dictionary as it was.
\<close>

theorem registry_invariant:
  assumes "PER_ENV_SETUPTOOLS_VERSIONS w = Map.empty"
  shows "(env \<in> dom (PER_ENV_SETUPTOOLS_VERSIONS (tox_configure cfg w))) =
           (\<exists>ec x. (env, ec) \<in> set (envconfigs cfg) \<and>
                    getstring ec ''setuptools_version'' = Some x \<and> x \<noteq> []) \<and>
         record_version reg e None = reg \<and> record_version reg e (Some []) = reg"
  using assms by (simp add: tox_configure_def dom_configure_loop record_version_def)

theorem registry_invariant_witness:
  "PER_ENV_SETUPTOOLS_VERSIONS fresh_world = Map.empty \<and>
   ''py38'' \<in> dom (PER_ENV_SETUPTOOLS_VERSIONS (tox_configure sample_config fresh_world)) \<and>
   (\<exists>ec x. (''py38'', ec) \<in> set (envconfigs sample_config) \<and>
            getstring ec ''setuptools_version'' = Some x \<and> x \<noteq> []) \<and>
   ''py39'' \<notin> dom (PER_ENV_SETUPTOOLS_VERSIONS (tox_configure sample_config fresh_world)) \<and>
   \<not> (\<exists>ec x. (''py39'', ec) \<in> set (envconfigs sample_config) \<and>
              getstring ec ''setuptools_version'' = Some x \<and> x \<noteq> [])"
proof -
  have h: "PER_ENV_SETUPTOOLS_VERSIONS fresh_world = Map.empty"
    by (simp add: fresh_world_def)
  have in38: "''py38'' \<in> dom (PER_ENV_SETUPTOOLS_VERSIONS (tox_configure sample_config fresh_world))"
    by (simp add: sample_registry)
  have out39: "''py39'' \<notin> dom (PER_ENV_SETUPTOOLS_VERSIONS (tox_configure sample_config fresh_world))"
    by (simp add: sample_registry)
  from registry_invariant [OF h, of "''py38''" sample_config] registry_invariant [OF h, of "''py39''" sample_config]
    h in38 out39
  show ?thesis by simp
qed

text \<open>
  C5. When the dictionary has no entry for an environment, because the configuration
  hook never met the name or met it only with an absent or an empty value, the lookup of
  the installation hook returns the fallback.
\<close>

theorem fallback_when_no_entry:
  assumes "PER_ENV_SETUPTOOLS_VERSIONS w env = None"
    and "\<forall>ec. (env, ec) \<in> set (envconfigs cfg) \<longrightarrow>
            getstring ec ''setuptools_version'' = None \<or>
            getstring ec ''setuptools_version'' = Some []"
  shows "resolve (PER_ENV_SETUPTOOLS_VERSIONS (tox_configure cfg w)) env f = f"
proof -
  have "env \<notin> dom (configure_loop (envconfigs cfg) (PER_ENV_SETUPTOOLS_VERSIONS w))"
    unfolding dom_configure_loop using assms by auto
  then have "PER_ENV_SETUPTOOLS_VERSIONS (tox_configure cfg w) env = None"
    by (auto simp: tox_configure_def)
  then show ?thesis by (rule resolve_no_entry)
qed

theorem fallback_when_no_entry_witness:
  "PER_ENV_SETUPTOOLS_VERSIONS fresh_world ''py39'' = None \<and>
   map_of (envconfigs sample_config) ''py39'' = Some (reader_of (Some [])) \<and>
   resolve (PER_ENV_SETUPTOOLS_VERSIONS (tox_configure sample_config fresh_world))
     ''py39'' (Some ''setuptools==21.0'') = Some ''setuptools==21.0'' \<and>
   PER_ENV_SETUPTOOLS_VERSIONS fresh_world ''py27'' = None \<and>
   map_of (envconfigs sample_config) ''py27'' = None \<and>
   resolve (PER_ENV_SETUPTOOLS_VERSIONS (tox_configure sample_config fresh_world))
     ''py27'' None = None"
proof -
  have h1: "PER_ENV_SETUPTOOLS_VERSIONS fresh_world ''py39'' = None"
    and k1: "PER_ENV_SETUPTOOLS_VERSIONS fresh_world ''py27'' = None"
    by (simp_all add: fresh_world_def)
  have h2: "\<forall>ec. (''py39'', ec) \<in> set (envconfigs sample_config) \<longrightarrow>
      getstring ec ''setuptools_version'' = None \<or>
      getstring ec ''setuptools_version'' = Some []"
    by (simp add: sample_config_def reader_of_def)
  have k0: "\<forall>ec. (''py27'', ec) \<notin> set (envconfigs sample_config)"
    by (simp add: sample_config_def)
  then have k2: "\<forall>ec. (''py27'', ec) \<in> set (envconfigs sample_config) \<longrightarrow>
      getstring ec ''setuptools_version'' = None \<or>
      getstring ec ''setuptools_version'' = Some []"
    by blast
  have m1: "map_of (envconfigs sample_config) ''py39'' = Some (reader_of (Some []))"
    and m2: "map_of (envconfigs sample_config) ''py27'' = None"
    by (simp_all add: sample_config_def)
  from fallback_when_no_entry [OF h1 h2, of "Some ''setuptools==21.0''"]
    fallback_when_no_entry [OF k1 k2, of None] h1 k1 m1 m2
  show ?thesis by simp
qed


section \<open>The installation hook's results\<close>

lemma install_deps_named:
  "action_venvname a = Some env \<Longrightarrow>
     tox_testenv_install_deps v a w =
       install_setuptools v a env
         (resolve (PER_ENV_SETUPTOOLS_VERSIONS w) env (tox_setuptools_version_from_env v w)) w"
  by (simp add: tox_testenv_install_deps_def)

lemma install_setuptools_registry:
  "PER_ENV_SETUPTOOLS_VERSIONS (snd (install_setuptools v a env sv w)) =
     PER_ENV_SETUPTOOLS_VERSIONS w"
  by (simp add: install_setuptools_def Let_def split: option.splits)

lemma install_setuptools_os_environ:
  "os_environ (snd (install_setuptools v a env sv w)) = os_environ w"
  by (simp add: install_setuptools_def Let_def split: option.splits)

lemma install_deps_registry:
  "PER_ENV_SETUPTOOLS_VERSIONS (snd (tox_testenv_install_deps v a w)) =
     PER_ENV_SETUPTOOLS_VERSIONS w"
  by (simp add: tox_testenv_install_deps_def install_setuptools_registry split: option.splits)

lemma install_deps_os_environ:
  "os_environ (snd (tox_testenv_install_deps v a w)) = os_environ w"
  by (simp add: tox_testenv_install_deps_def install_setuptools_os_environ split: option.splits)

lemma install_setuptools_nothing:
  "sv = None \<or> sv = Some [] \<Longrightarrow> install_setuptools v a env sv w = (None, w)"
  by (auto simp: install_setuptools_def)

lemma sample_action_name: "action_venvname (action_of n) = Some n"
  by (simp add: action_venvname_def action_of_def)

text \<open>
  C6. The value the installation hook hands to its lookup as the fallback is the
  virtualenv's own \<open>TOX_SETUPTOOLS_VERSION\<close> when its variables have one, whatever the
  process has; the process's value is used only when the virtualenv's variables have
  none.
\<close>

theorem env_scoped_value_first:
  "(get_os_environ v TOX_SETUPTOOLS_VERSION_VAR = Some x \<longrightarrow>
      tox_setuptools_version_from_env v w = Some x) \<and>
   (get_os_environ v TOX_SETUPTOOLS_VERSION_VAR = None \<longrightarrow>
      tox_setuptools_version_from_env v w = os_environ w TOX_SETUPTOOLS_VERSION_VAR) \<and>
   (action_venvname a = Some env \<longrightarrow>
      tox_testenv_install_deps v a w =
        install_setuptools v a env
          (resolve (PER_ENV_SETUPTOOLS_VERSIONS w) env
             (case get_os_environ v TOX_SETUPTOOLS_VERSION_VAR of
                Some x \<Rightarrow> Some x
              | None \<Rightarrow> os_environ w TOX_SETUPTOOLS_VERSION_VAR)) w)"
  by (simp add: install_deps_named tox_setuptools_version_from_env_def dict_get_def getenv_def)

theorem env_scoped_value_first_witness:
  "get_os_environ (venv_of [''TOX_SETUPTOOLS_VERSION'' \<mapsto> ''19.0'']) TOX_SETUPTOOLS_VERSION_VAR
     = Some ''19.0'' \<and>
   tox_setuptools_version_from_env (venv_of [''TOX_SETUPTOOLS_VERSION'' \<mapsto> ''19.0''])
     world_with_var = Some ''19.0'' \<and>
   get_os_environ (venv_of Map.empty) TOX_SETUPTOOLS_VERSION_VAR = None \<and>
   tox_setuptools_version_from_env (venv_of Map.empty) world_with_var = Some ''58.0.0'' \<and>
   action_venvname (action_of ''py36'') = Some ''py36'' \<and>
   tox_testenv_install_deps (venv_of [''TOX_SETUPTOOLS_VERSION'' \<mapsto> ''19.0''])
     (action_of ''py36'') world_with_var =
     (None, world_with_var
        \<lparr>stdout := [''py36 setuptools_version is setuptools==19.0''],
         installs := [([''setuptools==19.0''], [''--upgrade''], action_of ''py36'')]\<rparr>)"
proof -
  let ?v = "venv_of [''TOX_SETUPTOOLS_VERSION'' \<mapsto> ''19.0'']"
  have h1: "get_os_environ ?v TOX_SETUPTOOLS_VERSION_VAR = Some ''19.0''"
    by (simp add: venv_of_def TOX_SETUPTOOLS_VERSION_VAR_def)
  have h2: "get_os_environ (venv_of Map.empty) TOX_SETUPTOOLS_VERSION_VAR = None"
    by (simp add: venv_of_def)
  have p: "os_environ world_with_var TOX_SETUPTOOLS_VERSION_VAR = Some ''58.0.0''"
    by (simp add: world_with_var_def TOX_SETUPTOOLS_VERSION_VAR_def)
  have n: "get_setuptools_package_version ''19.0'' = ''setuptools==19.0''" by code_simp
  have r: "PER_ENV_SETUPTOOLS_VERSIONS world_with_var ''py36'' = None"
    by (simp add: world_with_var_def fresh_world_def)
  have i: "install_setuptools ?v (action_of ''py36'') ''py36''
      (resolve (PER_ENV_SETUPTOOLS_VERSIONS world_with_var) ''py36'' (Some ''19.0''))
      world_with_var =
     (None, world_with_var
        \<lparr>stdout := [''py36 setuptools_version is setuptools==19.0''],
         installs := [([''setuptools==19.0''], [''--upgrade''], action_of ''py36'')]\<rparr>)"
    by (simp add: resolve_def dict_get_def r install_setuptools_def Let_def n venv_of_def
        world_with_var_def fresh_world_def)
  from env_scoped_value_first [of ?v "''19.0''" world_with_var "action_of ''py36''" "''py36''"]
    env_scoped_value_first [of "venv_of Map.empty" "''19.0''" world_with_var "action_of ''py36''" "''py36''"]
    h1 h2 p i sample_action_name [of "''py36''"]
  show ?thesis by simp
qed

text \<open>
  C7. When the dictionary has no entry for the environment and neither the virtualenv's
  variables nor the process give a value, the lookup gives nothing and the hook ends
  without an exception and leaves the state as it was: nothing is printed and no
  installation is requested.
\<close>

theorem no_value_no_install:
  assumes "action_venvname a = Some env"
    and "PER_ENV_SETUPTOOLS_VERSIONS w env = None"
    and "tox_setuptools_version_from_env v w = None"
  shows "resolve (PER_ENV_SETUPTOOLS_VERSIONS w) env (tox_setuptools_version_from_env v w) = None \<and>
         tox_testenv_install_deps v a w = (None, w)"
  using assms
  by (simp add: install_deps_named resolve_no_entry install_setuptools_nothing)

theorem no_value_no_install_witness:
  "action_venvname (action_of ''py37'') = Some ''py37'' \<and>
   PER_ENV_SETUPTOOLS_VERSIONS (tox_configure sample_config fresh_world) ''py37'' = None \<and>
   tox_setuptools_version_from_env (venv_of Map.empty)
     (tox_configure sample_config fresh_world) = None \<and>
   tox_testenv_install_deps (venv_of Map.empty) (action_of ''py37'')
     (tox_configure sample_config fresh_world) =
     (None, tox_configure sample_config fresh_world) \<and>
   installs (snd (tox_testenv_install_deps (venv_of Map.empty) (action_of ''py37'')
     (tox_configure sample_config fresh_world))) = []"
proof -
  let ?w = "tox_configure sample_config fresh_world"
  have h2: "PER_ENV_SETUPTOOLS_VERSIONS ?w ''py37'' = None"
    by (simp add: sample_registry)
  have h3: "tox_setuptools_version_from_env (venv_of Map.empty) ?w = None"
    by (simp add: tox_setuptools_version_from_env_def dict_get_def getenv_def venv_of_def
        tox_configure_def fresh_world_def)
  have e: "installs ?w = []" by (simp add: tox_configure_def fresh_world_def)
  from no_value_no_install [OF sample_action_name h2 h3] sample_action_name [of "''py37''"] h2 h3 e
  show ?thesis by simp
qed

text \<open>
  C9. The installation hook leaves the dictionary as it found it, whether it installs,
  does nothing or ends with an exception; so what the lookup gives afterwards, for any
  environment and any virtualenv, is what it gave before.
\<close>

theorem install_deps_keeps_registry:
  "PER_ENV_SETUPTOOLS_VERSIONS (snd (tox_testenv_install_deps v a w)) =
     PER_ENV_SETUPTOOLS_VERSIONS w \<and>
   resolve (PER_ENV_SETUPTOOLS_VERSIONS (snd (tox_testenv_install_deps v a w))) env' f =
     resolve (PER_ENV_SETUPTOOLS_VERSIONS w) env' f \<and>
   resolve (PER_ENV_SETUPTOOLS_VERSIONS (snd (tox_testenv_install_deps v a w))) env'
       (tox_setuptools_version_from_env v' (snd (tox_testenv_install_deps v a w))) =
     resolve (PER_ENV_SETUPTOOLS_VERSIONS w) env' (tox_setuptools_version_from_env v' w)"
  by (simp add: install_deps_registry install_deps_os_environ
      tox_setuptools_version_from_env_def getenv_def)

text \<open>
  C10. When the virtualenv's variables bind \<open>TOX_SETUPTOOLS_VERSION\<close> to the empty
  string, the value read from the environment is that empty string, also when the
  process has a non-empty value \<open>p\<close>; for an environment without an entry in the
  dictionary the hook then requests no installation.
\<close>

theorem empty_env_scoped_value_shadows:
  assumes "get_os_environ v TOX_SETUPTOOLS_VERSION_VAR = Some []"
    and "os_environ w TOX_SETUPTOOLS_VERSION_VAR = Some p"
    and "p \<noteq> []"
    and "action_venvname a = Some env"
    and "PER_ENV_SETUPTOOLS_VERSIONS w env = None"
  shows "tox_setuptools_version_from_env v w = Some [] \<and>
         tox_setuptools_version_from_env v w \<noteq> os_environ w TOX_SETUPTOOLS_VERSION_VAR \<and>
         tox_testenv_install_deps v a w = (None, w)"
proof -
  have fe: "tox_setuptools_version_from_env v w = Some []"
    using assms(1) by (simp add: tox_setuptools_version_from_env_def dict_get_def)
  have "tox_testenv_install_deps v a w = install_setuptools v a env (Some []) w"
    using assms(4,5) fe by (simp add: install_deps_named resolve_no_entry)
  with fe assms(2,3) show ?thesis by (simp add: install_setuptools_nothing)
qed

theorem empty_env_scoped_value_shadows_witness:
  "get_os_environ (venv_of [''TOX_SETUPTOOLS_VERSION'' \<mapsto> []]) TOX_SETUPTOOLS_VERSION_VAR
     = Some [] \<and>
   os_environ world_with_var TOX_SETUPTOOLS_VERSION_VAR = Some ''58.0.0'' \<and>
   ''58.0.0'' \<noteq> [] \<and>
   action_venvname (action_of ''py37'') = Some ''py37'' \<and>
   PER_ENV_SETUPTOOLS_VERSIONS world_with_var ''py37'' = None \<and>
   tox_testenv_install_deps (venv_of [''TOX_SETUPTOOLS_VERSION'' \<mapsto> []])
     (action_of ''py37'') world_with_var = (None, world_with_var) \<and>
   tox_testenv_install_deps (venv_of Map.empty) (action_of ''py37'') world_with_var =
     (None, world_with_var
        \<lparr>stdout := [''py37 setuptools_version is setuptools==58.0.0''],
         installs := [([''setuptools==58.0.0''], [''--upgrade''], action_of ''py37'')]\<rparr>)"
proof -
  let ?v = "venv_of [''TOX_SETUPTOOLS_VERSION'' \<mapsto> []]"
  have h1: "get_os_environ ?v TOX_SETUPTOOLS_VERSION_VAR = Some []"
    by (simp add: venv_of_def TOX_SETUPTOOLS_VERSION_VAR_def)
  have h2: "os_environ world_with_var TOX_SETUPTOOLS_VERSION_VAR = Some ''58.0.0''"
    by (simp add: world_with_var_def TOX_SETUPTOOLS_VERSION_VAR_def)
  have h3: "''58.0.0'' \<noteq> []" by simp
  have h5: "PER_ENV_SETUPTOOLS_VERSIONS world_with_var ''py37'' = None"
    by (simp add: world_with_var_def fresh_world_def)
  have n: "get_setuptools_package_version ''58.0.0'' = ''setuptools==58.0.0''" by code_simp
  have fe: "tox_setuptools_version_from_env (venv_of Map.empty) world_with_var = Some ''58.0.0''"
    by (simp add: tox_setuptools_version_from_env_def dict_get_def getenv_def venv_of_def h2)
  have inst: "install_setuptools (venv_of Map.empty) (action_of ''py37'') ''py37''
      (Some ''58.0.0'') world_with_var =
     (None, world_with_var
        \<lparr>stdout := [''py37 setuptools_version is setuptools==58.0.0''],
         installs := [([''setuptools==58.0.0''], [''--upgrade''], action_of ''py37'')]\<rparr>)"
    by (simp add: install_setuptools_def Let_def n venv_of_def world_with_var_def
        fresh_world_def)
  have other: "tox_testenv_install_deps (venv_of Map.empty) (action_of ''py37'') world_with_var =
     (None, world_with_var
        \<lparr>stdout := [''py37 setuptools_version is setuptools==58.0.0''],
         installs := [([''setuptools==58.0.0''], [''--upgrade''], action_of ''py37'')]\<rparr>)"
    by (simp only: install_deps_named [OF sample_action_name] fe resolve_def dict_get_def h5
        option.case inst)
  from empty_env_scoped_value_shadows [OF h1 h2 h3 sample_action_name h5]
    h1 h2 h3 h5 sample_action_name [of "''py37''"] other
  show ?thesis by simp
qed

end
